theory Spec2Isabelle
  imports Complex_Main "HOL-Library.AList"
begin

section \<open>Values, requests and responses\<close>

text \<open>
  The values that travel through \<^verbatim>\<open>app.py\<close> are the Python objects that \<^verbatim>\<open>json.dumps\<close>
  writes and \<^verbatim>\<open>response.json()\<close> reads: \<^verbatim>\<open>None\<close>, booleans, integers, floats, strings,
  lists and dicts. A dict is an association list in insertion order, read with
  \<open>map_of\<close>. A float is only carried from a widget into a payload and never computed
  with, so it is held as a real number. A string is a list of characters whose code
  points lie below 256.
\<close>

datatype json =
    JNull
  | JBool bool
  | JInt int
  | JFloat real
  | JStr string
  | JList "json list"
  | JObj "(string \<times> json) list"

text \<open>An exception is known to the program only through \<^verbatim>\<open>str(e)\<close>, its message.\<close>

type_synonym exn = string

text \<open>
  A response of \<^verbatim>\<open>requests\<close> or \<^verbatim>\<open>aiohttp\<close>: the status (\<^verbatim>\<open>status_code\<close>, or
  \<^verbatim>\<open>status\<close> in aiohttp), the body text, and what \<^verbatim>\<open>response.json()\<close> gives, which is
  the decoded value or the exception raised while decoding.
\<close>

record response =
  status_code :: int
  resp_text :: string
  json_body :: "exn + json"

text \<open>
  A header value is a literal, or the f-string \<^verbatim>\<open>f"Bearer {token}"\<close>, kept as the
  token that is interpolated. \<open>data\<close> is the value handed to \<^verbatim>\<open>json.dumps\<close>.
\<close>

datatype header = Plain string | Bearer json

record request =
  url :: string
  headers :: "(string \<times> header) list"
  data :: "json option"
  timeout :: "nat option"

text \<open>
  The backend is a parameter: it answers a request with a response, or the call
  raises (connection refused, timeout, ...).
\<close>

type_synonym reply = "exn + response"
type_synonym network = "request \<Rightarrow> reply"

text \<open>What the page shows to report the outcome of an operation.\<close>

datatype notice =
    St_error string
  | St_sidebar_error string
  | St_success string
  | St_info json
  | St_subheader string
  | St_write string
  | St_markdown json
  | St_json json

text \<open>
  \<^verbatim>\<open>st.session_state\<close>. The key \<^verbatim>\<open>messages\<close> is absent until the chat page creates it.
  Two more fields record the effects of the run: \<open>sent\<close>, the network calls made so
  far, oldest first, and \<open>shown\<close>, the notices displayed so far.
\<close>

record session_state =
  app_mode :: string
  authenticated :: bool
  access_token :: json
  username :: string
  password :: string
  base_url :: string
  companies :: json
  messages :: "json list option"
  sent :: "request list"
  shown :: "notice list"

text \<open>Lines 22 to 32; the three defaults of \<^verbatim>\<open>os.getenv\<close> are parameters.\<close>

definition init_session :: "string \<Rightarrow> string \<Rightarrow> string \<Rightarrow> session_state" where
  "init_session u p b =
     \<lparr> app_mode = ''Ask Question'', authenticated = False, access_token = JNull,
       username = u, password = p, base_url = b, companies = JList [],
       messages = None, sent = [], shown = [] \<rparr>"

subsection \<open>Python helpers\<close>

text \<open>\<^verbatim>\<open>d.get(key, default)\<close> on a dict.\<close>

definition dict_get :: "(string \<times> json) list \<Rightarrow> string \<Rightarrow> json \<Rightarrow> json" where
  "dict_get d key dflt = (case map_of d key of None \<Rightarrow> dflt | Some v \<Rightarrow> v)"

text \<open>
  \<^verbatim>\<open>x.get(...)\<close> on a value that is not a dict raises AttributeError; this is its
  message.
\<close>

fun type_name :: "json \<Rightarrow> string" where
  "type_name JNull = ''NoneType''"
| "type_name (JBool _) = ''bool''"
| "type_name (JInt _) = ''int''"
| "type_name (JFloat _) = ''float''"
| "type_name (JStr _) = ''str''"
| "type_name (JList _) = ''list''"
| "type_name (JObj _) = ''dict''"

definition no_attribute_get :: "json \<Rightarrow> exn" where
  "no_attribute_get v =
     [CHR 0x27] @ type_name v @ [CHR 0x27] @ '' object has no attribute ''
       @ [CHR 0x27] @ ''get'' @ [CHR 0x27]"

text \<open>\<^verbatim>\<open>str(n)\<close> of an integer, for the status code in a message.\<close>

function str_nat :: "nat \<Rightarrow> string" where
  "str_nat n =
     (if n < 10 then [char_of (48 + n)]
      else str_nat (n div 10) @ [char_of (48 + n mod 10)])"
  by pat_completeness auto
termination
  by (relation "measure id") auto

definition str_int :: "int \<Rightarrow> string" where
  "str_int i = (if i < 0 then CHR ''-'' # str_nat (nat (- i)) else str_nat (nat i))"

text \<open>\<^verbatim>\<open>not x\<close> on a value that is \<^verbatim>\<open>None\<close> or a string.\<close>

fun falsy :: "string option \<Rightarrow> bool" where
  "falsy None = True"
| "falsy (Some s) = (s = [])"

definition show_notice :: "notice \<Rightarrow> session_state \<Rightarrow> session_state" where
  "show_notice n s = s\<lparr> shown := shown s @ [n] \<rparr>"

text \<open>
  \<^verbatim>\<open>requests.post\<close>: the call is recorded in \<open>sent\<close> and the backend's reply comes
  back.
\<close>

definition post :: "network \<Rightarrow> request \<Rightarrow> session_state \<Rightarrow> reply \<times> session_state" where
  "post net req s = (net req, s\<lparr> sent := sent s @ [req] \<rparr>)"

section \<open>Company list\<close>

text \<open>
  \<^verbatim>\<open>fetch_companies\<close>, lines 77 to 97. Every exception of the \<^verbatim>\<open>try\<close> block (the call
  raising, the body not decoding, the body not being a dict) ends in the
  \<^verbatim>\<open>except\<close> branch, which only shows an error.
\<close>

definition company_list_request :: "session_state \<Rightarrow> request" where
  "company_list_request s =
     (let company_url = base_url s @ ''/company_list/'';
          hdrs = [(''Authorization'', Bearer (access_token s)),
                  (''Content-Type'', Plain ''application/json'')]
      in \<lparr> url = company_url, headers = hdrs, data = None, timeout = None \<rparr>)"

definition fetch_companies :: "network \<Rightarrow> session_state \<Rightarrow> session_state" where
  "fetch_companies net s =
     (if \<not> authenticated s then s
      else
        let (r, s1) = post net (company_list_request s) s
        in case r of
             Inl e \<Rightarrow> show_notice (St_error (''Error fetching companies: '' @ e)) s1
           | Inr resp \<Rightarrow>
               if status_code resp = 200 then
                 (case json_body resp of
                    Inl e \<Rightarrow> show_notice (St_error (''Error fetching companies: '' @ e)) s1
                  | Inr (JObj d) \<Rightarrow> s1\<lparr> companies := dict_get d ''companies'' (JList []) \<rparr>
                  | Inr v \<Rightarrow>
                      show_notice
                        (St_error (''Error fetching companies: '' @ no_attribute_get v)) s1)
               else
                 show_notice
                   (St_error (''Failed to fetch companies: '' @ str_int (status_code resp)
                      @ '' - '' @ resp_text resp)) s1)"

section \<open>Authentication\<close>

text \<open>
  \<^verbatim>\<open>authenticate\<close>, lines 39 to 73. The result is the returned boolean and the new
  state. On status 200 the token is \<^verbatim>\<open>token_dict.get("access")\<close>, which is \<^verbatim>\<open>None\<close>
  when the key is missing. The two failure branches assign \<open>authenticated\<close> only.
\<close>

definition token_request :: "session_state \<Rightarrow> request" where
  "token_request s =
     (let auth_url = base_url s @ ''/auth/token/'';
          payload = JObj [(''username'', JStr (username s)),
                          (''password'', JStr (password s))];
          hdrs = [(''Content-Type'', Plain ''application/json'')]
      in \<lparr> url = auth_url, headers = hdrs, data = Some payload, timeout = Some 30 \<rparr>)"

definition authenticate :: "network \<Rightarrow> session_state \<Rightarrow> bool \<times> session_state" where
  "authenticate net s =
     (let (r, s1) = post net (token_request s) s
      in case r of
           Inl e \<Rightarrow>
             (False, (show_notice (St_sidebar_error (''Authentication error: '' @ e)) s1)
                       \<lparr> authenticated := False \<rparr>)
         | Inr resp \<Rightarrow>
             if status_code resp = 200 then
               (case json_body resp of
                  Inl e \<Rightarrow>
                    (False, (show_notice (St_sidebar_error (''Authentication error: '' @ e)) s1)
                              \<lparr> authenticated := False \<rparr>)
                | Inr (JObj token_dict) \<Rightarrow>
                    (True, fetch_companies net
                             (s1\<lparr> access_token := dict_get token_dict ''access'' JNull,
                                  authenticated := True \<rparr>))
                | Inr v \<Rightarrow>
                    (False, (show_notice
                               (St_sidebar_error
                                  (''Authentication error: '' @ no_attribute_get v)) s1)
                              \<lparr> authenticated := False \<rparr>))
             else
               (False, (show_notice
                          (St_sidebar_error
                             (''Authentication failed: '' @ str_int (status_code resp)
                                @ '' - '' @ resp_text resp)) s1)
                         \<lparr> authenticated := False \<rparr>))"

section \<open>Crawl form\<close>

text \<open>
  \<^verbatim>\<open>str.isspace\<close> for a code point below 256, \<^verbatim>\<open>str.strip()\<close> and
  \<^verbatim>\<open>str.split(sep)\<close> for a separator of one character.
\<close>

definition is_space :: "char \<Rightarrow> bool" where
  "is_space c =
     (let n = (of_char c :: nat)
      in (9 \<le> n \<and> n \<le> 13) \<or> (28 \<le> n \<and> n \<le> 32) \<or> n = 133 \<or> n = 160)"

definition strip :: "string \<Rightarrow> string" where
  "strip s = rev (dropWhile is_space (rev (dropWhile is_space s)))"

fun split_from :: "char \<Rightarrow> string \<Rightarrow> string \<Rightarrow> string list" where
  "split_from sep cur [] = [rev cur]"
| "split_from sep cur (c # cs) =
     (if c = sep then rev cur # split_from sep [] cs else split_from sep (c # cur) cs)"

definition split :: "string \<Rightarrow> char \<Rightarrow> string list" where
  "split s sep = split_from sep [] s"

text \<open>Lines 230 to 236: the prompt box exists only for the custom crawl type.\<close>

definition custom_prompt_of :: "string \<Rightarrow> string \<Rightarrow> string option" where
  "custom_prompt_of crawl_type typed =
     (if crawl_type = ''Custom Prompt'' then Some typed else None)"

text \<open>Lines 250 to 254.\<close>

definition parse_domains :: "string \<Rightarrow> string list" where
  "parse_domains company_domains =
     map strip (filter (\<lambda>domain. strip domain \<noteq> []) (split company_domains CHR ''\<newline>''))"

text \<open>Lines 259 to 283: the payload and the request.\<close>

definition crawl_payload :: "string list \<Rightarrow> string \<Rightarrow> string option \<Rightarrow> (string \<times> json) list" where
  "crawl_payload domains_list crawl_type custom_prompt =
     (let payload = [(''company_domains'', JList (map JStr domains_list)),
                     (''lite_crawl'', JBool (crawl_type = ''Lite Crawl''))]
      in case custom_prompt of
           None \<Rightarrow> payload
         | Some p \<Rightarrow>
             if crawl_type = ''Custom Prompt'' \<and> p \<noteq> []
             then AList.update ''prompt'' (JStr p) payload else payload)"

definition crawl_request :: "session_state \<Rightarrow> string list \<Rightarrow> string \<Rightarrow> string option \<Rightarrow> request" where
  "crawl_request s domains_list crawl_type custom_prompt =
     (let crawl_url = base_url s @ ''/company_crawl/'';
          hdrs = [(''Authorization'', Bearer (access_token s)),
                  (''Content-Type'', Plain ''application/json'')]
      in \<lparr> url = crawl_url, headers = hdrs,
           data = Some (JObj (crawl_payload domains_list crawl_type custom_prompt)),
           timeout = Some 30 \<rparr>)"

text \<open>
  The submit handler, lines 241 to 306. A body that is not a dict makes
  \<^verbatim>\<open>data.get\<close> raise after the success notice is already shown.
\<close>

definition submit_crawl ::
  "network \<Rightarrow> string \<Rightarrow> string \<Rightarrow> string option \<Rightarrow> session_state \<Rightarrow> session_state" where
  "submit_crawl net company_domains crawl_type custom_prompt s =
     (if \<not> authenticated s then show_notice (St_error ''Please authenticate first!'') s
      else if company_domains = [] then
        show_notice (St_error ''Please enter at least one company domain'') s
      else if crawl_type = ''Custom Prompt'' \<and> falsy custom_prompt then
        show_notice (St_error ''Please enter a custom prompt'') s
      else
        let domains_list = parse_domains company_domains
        in if domains_list \<noteq> [] then
             let (r, s1) = post net (crawl_request s domains_list crawl_type custom_prompt) s
             in case r of
                  Inl e \<Rightarrow>
                    show_notice (St_error (''Error submitting crawl request: '' @ e)) s1
                | Inr resp \<Rightarrow>
                    if status_code resp = 200 then
                      (case json_body resp of
                         Inl e \<Rightarrow>
                           show_notice
                             (St_error (''Error submitting crawl request: '' @ e)) s1
                       | Inr (JObj d) \<Rightarrow>
                           let s2 = show_notice
                                      (St_success ''Crawling request submitted successfully!'') s1;
                               s3 = show_notice
                                      (St_info (dict_get d ''message''
                                         (JStr ''You will be notified when crawling is complete.'')))
                                      s2;
                               s4 = show_notice (St_subheader ''Domains being crawled:'') s3
                           in foldl (\<lambda>st domain. show_notice (St_write (''- '' @ domain)) st)
                                s4 domains_list
                       | Inr v \<Rightarrow>
                           show_notice
                             (St_error (''Error submitting crawl request: '' @ no_attribute_get v))
                             (show_notice
                                (St_success ''Crawling request submitted successfully!'') s1))
                    else
                      show_notice
                        (St_error (''Failed to submit crawl request: ''
                           @ str_int (status_code resp) @ '' - '' @ resp_text resp)) s1
           else show_notice (St_error ''No valid domains found'') s)"

section \<open>Chat\<close>

text \<open>The sidebar widgets that configure a question, lines 168 to 211.\<close>

record widgets =
  selected_model :: string
  temperature :: real
  k_value :: int
  use_reranker :: bool
  rerank_top_n :: int
  recursion_limit :: int

text \<open>Lines 392 to 406.\<close>

definition qa_dict_of :: "widgets \<Rightarrow> string \<Rightarrow> json" where
  "qa_dict_of w prompt =
     JObj [(''query'', JStr prompt),
           (''llm_kwargs'',
              JObj [(''model_name'', JStr (selected_model w)),
                    (''temperature'', JFloat (temperature w))]),
           (''vectorstore_kwargs'',
              JObj [(''k'', JInt (k_value w)),
                    (''use_reranker'', JBool (use_reranker w)),
                    (''rerank_top_n'',
                       (if use_reranker w then JInt (rerank_top_n w) else JNull))]),
           (''recursion_limit'', JInt (recursion_limit w))]"

text \<open>Lines 409 to 423.\<close>

definition qa_request :: "session_state \<Rightarrow> string \<Rightarrow> json \<Rightarrow> request" where
  "qa_request s selected_domain qa_dict =
     (let qa_url = base_url s @ ''/company_qa/'';
          hdrs = [(''Authorization'', Bearer (access_token s)),
                  (''Content-Type'', Plain ''application/json'')];
          payload = JObj [(''company_domain'', JStr selected_domain), (''qa_dict'', qa_dict)]
      in \<lparr> url = qa_url, headers = hdrs, data = Some payload, timeout = Some 500 \<rparr>)"

text \<open>
  Lines 361 and 362 create the chat history when it is absent, so it is a list
  whenever a message is appended.
\<close>

definition history :: "session_state \<Rightarrow> json list" where
  "history s = (case messages s of None \<Rightarrow> [] | Some ms \<Rightarrow> ms)"

definition ensure_messages :: "session_state \<Rightarrow> session_state" where
  "ensure_messages s = (case messages s of None \<Rightarrow> s\<lparr> messages := Some [] \<rparr> | Some ms \<Rightarrow> s)"

definition append_message :: "json \<Rightarrow> session_state \<Rightarrow> session_state" where
  "append_message m s = s\<lparr> messages := Some (history s @ [m]) \<rparr>"

text \<open>
  The warning sign and its variation selector, U+26A0 U+FE0F, lie beyond the code
  points of \<open>char\<close>; the prefix is written as the six bytes of its UTF-8 form.
\<close>

definition warning_sign :: string where
  "warning_sign = [CHR 0xE2, CHR 0x9A, CHR 0xA0, CHR 0xEF, CHR 0xB8, CHR 0x8F]"

text \<open>The \<^verbatim>\<open>else\<close> branch, lines 460 to 468, and the \<^verbatim>\<open>except\<close> branch, lines 470 to 478.\<close>

definition qa_failed :: "string \<Rightarrow> session_state \<Rightarrow> session_state" where
  "qa_failed error_msg s =
     append_message
       (JObj [(''role'', JStr ''assistant''),
              (''content'', JStr (warning_sign @ '' '' @ error_msg))])
       (show_notice (St_error error_msg) s)"

text \<open>
  The chat input handler, lines 361 to 478. \<open>prompt\<close> is what \<^verbatim>\<open>st.chat_input\<close>
  returns, \<open>now\<close> is \<^verbatim>\<open>datetime.now().isoformat()\<close>.
\<close>

definition chat_prompt ::
  "network \<Rightarrow> widgets \<Rightarrow> string \<Rightarrow> string \<Rightarrow> string option \<Rightarrow> session_state \<Rightarrow> session_state"
  where
  "chat_prompt net w now selected_domain prompt s =
     (let s0 = ensure_messages s
      in case prompt of
           None \<Rightarrow> s0
         | Some p \<Rightarrow>
             if p = [] then s0
             else
              (let s1 = append_message
                          (JObj [(''role'', JStr ''user''), (''content'', JStr p)]) s0;
                   s2 = show_notice (St_markdown (JStr p)) s1;
                   (r, s3) = post net (qa_request s2 selected_domain (qa_dict_of w p)) s2
               in case r of
                    Inl e \<Rightarrow> qa_failed (''Error getting answer: '' @ e) s3
                  | Inr resp \<Rightarrow>
                      if status_code resp = 200 then
                        (case json_body resp of
                           Inl e \<Rightarrow> qa_failed (''Error getting answer: '' @ e) s3
                         | Inr (JObj d) \<Rightarrow>
                             let answer = dict_get d ''output'' (JStr ''No answer available'');
                                 formatted_answer = answer;
                                 s4 = show_notice (St_markdown formatted_answer) s3;
                                 json_output =
                                   AList.update ''full_response'' (JObj d)
                                     [(''query'', JStr p),
                                      (''response'', answer),
                                      (''company_domain'', JStr selected_domain),
                                      (''timestamp'', JStr now)];
                                 s5 = show_notice (St_json (JObj json_output)) s4
                             in append_message
                                  (JObj [(''role'', JStr ''assistant''),
                                         (''content'', formatted_answer),
                                         (''json_output'', JObj json_output)]) s5
                         | Inr v \<Rightarrow>
                             qa_failed (''Error getting answer: '' @ no_attribute_get v) s3)
                      else
                        qa_failed (''Error: '' @ str_int (status_code resp) @ '' - ''
                                     @ resp_text resp) s3))"

section \<open>Batch questions\<close>

text \<open>
  \<^verbatim>\<open>asyncio.gather(*aws)\<close> with the default \<^verbatim>\<open>return_exceptions=False\<close>. Each
  awaitable ends with a value or raises. \<open>order\<close> lists the positions of the
  awaitables in the order in which they finish. A value is kept in the slot of
  its awaitable; the first exception met in that order is raised to the caller at
  once; when all have finished, the values are returned slot by slot.
\<close>

fun gather_run :: "nat list \<Rightarrow> (exn + 'a) list \<Rightarrow> 'a option list \<Rightarrow> exn + 'a option list" where
  "gather_run [] aws slots = Inr slots"
| "gather_run (i # order) aws slots =
     (if i < length aws then
        (case aws ! i of
           Inl e \<Rightarrow> Inl e
         | Inr v \<Rightarrow> gather_run order aws (slots[i := Some v]))
      else gather_run order aws slots)"

definition gather :: "nat list \<Rightarrow> (exn + 'a) list \<Rightarrow> exn + 'a list" where
  "gather order aws =
     (case gather_run order aws (replicate (length aws) None) of
        Inl e \<Rightarrow> Inl e
      | Inr slots \<Rightarrow> Inr (List.map_filter (\<lambda>slot. slot) slots))"

text \<open>An order of completion of \<open>n\<close> awaitables names each position once.\<close>

definition completion_order :: "nat list \<Rightarrow> nat \<Rightarrow> bool" where
  "completion_order order n = (distinct order \<and> set order = {0..<n})"

text \<open>The request of lines 500 to 506; aiohttp is given no timeout.\<close>

definition batch_request :: "session_state \<Rightarrow> string \<Rightarrow> json \<Rightarrow> json \<Rightarrow> request" where
  "batch_request s company_domain qa_dict token =
     (let payload = JObj [(''company_domain'', JStr company_domain), (''qa_dict'', qa_dict)];
          hdrs = [(''Authorization'', Bearer token),
                  (''Content-Type'', Plain ''application/json'')];
          qa_url = base_url s @ ''/company_qa/''
      in \<lparr> url = qa_url, headers = hdrs, data = Some payload, timeout = None \<rparr>)"

text \<open>
  The loop of lines 509 to 514. \<^verbatim>\<open>await response.json()\<close> may raise; nothing
  catches it.
\<close>

fun results_loop :: "response list \<Rightarrow> json list \<Rightarrow> exn + json list" where
  "results_loop [] results = Inr results"
| "results_loop (resp # responses) results =
     (if status_code resp = 200 then
        (case json_body resp of
           Inl e \<Rightarrow> Inl e
         | Inr v \<Rightarrow> results_loop responses (results @ [v]))
      else
        results_loop responses
          (results @ [JObj [(''error'', JStr ''Failed to fetch response'')]]))"

text \<open>\<^verbatim>\<open>fetch_company_qa_responses\<close>, lines 493 to 515.\<close>

definition fetch_company_qa_responses ::
  "nat list \<Rightarrow> network \<Rightarrow> session_state \<Rightarrow> string \<Rightarrow> json list \<Rightarrow> json \<Rightarrow> exn + json list"
  where
  "fetch_company_qa_responses order net s company_domain qa_list token =
     (let tasks = map (\<lambda>qa_dict. net (batch_request s company_domain qa_dict token)) qa_list
      in case gather order tasks of
           Inl e \<Rightarrow> Inl e
         | Inr responses \<Rightarrow> results_loop responses [])"

text \<open>
  \<^verbatim>\<open>fetch_qa_responses\<close>, lines 518 to 528. \<open>order\<close> is the order in which the
  domains' coroutines finish, \<open>inner i\<close> the order in which the requests of the
  domain at position \<open>i\<close> finish.
\<close>

definition fetch_qa_responses ::
  "nat list \<Rightarrow> (nat \<Rightarrow> nat list) \<Rightarrow> network \<Rightarrow> session_state \<Rightarrow> string list \<Rightarrow> json list
     \<Rightarrow> exn + json list list"
  where
  "fetch_qa_responses order inner net s domains_list qa_list =
     (let qa_tasks =
            map (\<lambda>(i, domain).
                   fetch_company_qa_responses (inner i) net s domain qa_list (access_token s))
              (enumerate 0 domains_list)
      in gather order qa_tasks)"

section \<open>Replies and runs\<close>

text \<open>
  The token request succeeds when the reply has status 200 and its body decodes to
  a dict; \<open>token_granted\<close> gives that dict. This is the condition under which
  \<^verbatim>\<open>authenticate\<close> reaches its \<^verbatim>\<open>return True\<close>.
\<close>

definition token_granted :: "network \<Rightarrow> session_state \<Rightarrow> (string \<times> json) list option" where
  "token_granted net s =
     (case net (token_request s) of
        Inl e \<Rightarrow> None
      | Inr resp \<Rightarrow>
          if status_code resp = 200 then
            (case json_body resp of Inr (JObj d) \<Rightarrow> Some d | _ \<Rightarrow> None)
          else None)"

text \<open>
  The operations that write \<open>authenticated\<close> or \<open>access_token\<close>, or run under their
  guard: the Authenticate button, and the refresh of the company list on a mode
  switch or on the chat page. Each event carries the backend as it answers then.
\<close>

datatype event = Authenticate network | Fetch_companies network

fun step :: "event \<Rightarrow> session_state \<Rightarrow> session_state" where
  "step (Authenticate net) s = snd (authenticate net s)"
| "step (Fetch_companies net) s = fetch_companies net s"

fun run :: "event list \<Rightarrow> session_state \<Rightarrow> session_state" where
  "run [] s = s"
| "run (e # es) s = run es (step e s)"

text \<open>
  The backend keeps its contract along a run when every granted token response
  carries an \<^verbatim>\<open>access\<close> value other than \<^verbatim>\<open>None\<close>.
\<close>

fun token_contract :: "event \<Rightarrow> session_state \<Rightarrow> bool" where
  "token_contract (Authenticate net) s =
     (case token_granted net s of
        Some d \<Rightarrow> dict_get d ''access'' JNull \<noteq> JNull
      | None \<Rightarrow> True)"
| "token_contract (Fetch_companies net) s = True"

fun contract_run :: "event list \<Rightarrow> session_state \<Rightarrow> bool" where
  "contract_run [] s = True"
| "contract_run (e # es) s = (token_contract e s \<and> contract_run es (step e s))"

text \<open>
  What one batch request contributes to the result: \<open>qa_entry r entry\<close> holds when
  the reply \<open>r\<close> is a response and \<open>entry\<close> is its decoded body (status 200) or the
  error dict (any other status).
\<close>

definition qa_entry :: "reply \<Rightarrow> json \<Rightarrow> bool" where
  "qa_entry r entry =
     (case r of
        Inl e \<Rightarrow> False
      | Inr resp \<Rightarrow>
          if status_code resp = 200 then json_body resp = Inr entry
          else entry = JObj [(''error'', JStr ''Failed to fetch response'')])"

section \<open>Scenarios\<close>

definition acme :: json where
  "acme = JObj [(''company_name'', JStr ''Acme''), (''company_domain'', JStr ''acme.com'')]"

definition token_response :: response where
  "token_response =
     \<lparr> status_code = 200, resp_text = [],
       json_body = Inr (JObj [(''access'', JStr ''tok'')]) \<rparr>"

definition companies_response :: response where
  "companies_response =
     \<lparr> status_code = 200, resp_text = [],
       json_body = Inr (JObj [(''companies'', JList [acme])]) \<rparr>"

definition denied_response :: response where
  "denied_response =
     \<lparr> status_code = 401, resp_text = ''denied'', json_body = Inl ''Expecting value'' \<rparr>"

definition empty_response :: response where
  "empty_response = \<lparr> status_code = 200, resp_text = ''{}'', json_body = Inr (JObj []) \<rparr>"

definition backend_up :: network where
  "backend_up req =
     (if url req = ''https://example.com/auth/token/'' then Inr token_response
      else Inr companies_response)"

definition backend_401 :: network where
  "backend_401 req = Inr denied_response"

definition backend_empty :: network where
  "backend_empty req = Inr empty_response"

definition backend_down :: network where
  "backend_down req = Inl ''Connection refused''"

definition session0 :: session_state where
  "session0 = init_session ''username'' ''password'' ''https://example.com''"

definition session1 :: session_state where
  "session1 = session0
       \<lparr> authenticated := True, access_token := JStr ''tok'',
         companies := JList [JObj [(''company_name'', JStr ''Old''),
                                   (''company_domain'', JStr ''old.com'')]] \<rparr>"

text \<open>A backend for batches of two domains and two questions.\<close>

definition answer_response :: "string \<Rightarrow> response" where
  "answer_response a =
     \<lparr> status_code = 200, resp_text = [], json_body = Inr (JObj [(''output'', JStr a)]) \<rparr>"

definition qa_payload :: "string \<Rightarrow> string \<Rightarrow> json option" where
  "qa_payload domain question =
     Some (JObj [(''company_domain'', JStr domain), (''qa_dict'', JStr question)])"

definition qa_backend :: network where
  "qa_backend req =
     (if data req = qa_payload ''b.com'' ''Q2'' then Inr denied_response
      else if data req = qa_payload ''a.com'' ''Q1'' then Inr (answer_response ''a1'')
      else if data req = qa_payload ''a.com'' ''Q2'' then Inr (answer_response ''a2'')
      else Inr (answer_response ''b1''))"

definition flaky_backend :: network where
  "flaky_backend req =
     (if data req = qa_payload ''b.com'' ''Q2'' then Inl ''Connection reset''
      else qa_backend req)"

definition inner_order :: "nat \<Rightarrow> nat list" where
  "inner_order i = (if i = 0 then [1, 0] else [0, 1])"

text \<open>The sidebar of the end-to-end scenario, and the same with the reranker off.\<close>

definition widgets0 :: widgets where
  "widgets0 =
     \<lparr> selected_model = ''gpt-4o-mini'', temperature = 0.1, k_value = 30,
       use_reranker = True, rerank_top_n = 10, recursion_limit = 25 \<rparr>"

definition widgets_plain :: widgets where
  "widgets_plain = widgets0 \<lparr> use_reranker := False \<rparr>"

definition chat_backend :: network where
  "chat_backend req = Inr (answer_response ''Acme makes anvils.'')"

section \<open>Company list: properties\<close>

lemma fetch_companies_sent:
  "sent (fetch_companies net s) =
     (if authenticated s then sent s @ [company_list_request s] else sent s)"
  by (auto simp: fetch_companies_def post_def show_notice_def Let_def
      split: sum.splits json.splits)

lemma fetch_companies_keeps:
  "authenticated (fetch_companies net s) = authenticated s"
  "access_token (fetch_companies net s) = access_token s"
  "base_url (fetch_companies net s) = base_url s"
  "messages (fetch_companies net s) = messages s"
  by (auto simp: fetch_companies_def post_def show_notice_def Let_def
      split: sum.splits json.splits)

lemma fetch_companies_ok:
  assumes "authenticated s" and "net (company_list_request s) = Inr resp"
    and "status_code resp = 200" and "json_body resp = Inr (JObj d)"
  shows "fetch_companies net s =
     s\<lparr> sent := sent s @ [company_list_request s],
        companies := dict_get d ''companies'' (JList []) \<rparr>"
  using assms by (simp add: fetch_companies_def post_def)

lemma fetch_companies_failed:
  assumes "authenticated s"
    and "\<not> (\<exists>resp d. net (company_list_request s) = Inr resp \<and> status_code resp = 200
              \<and> json_body resp = Inr (JObj d))"
  shows "companies (fetch_companies net s) = companies s"
  using assms
  by (auto simp: fetch_companies_def post_def show_notice_def Let_def
      split: sum.splits json.splits)

lemma session1_authenticated: "authenticated session1"
  by (simp add: session1_def session0_def init_session_def)

lemma session0_unauthenticated: "\<not> authenticated session0"
  by (simp add: session0_def init_session_def)

text \<open>
  C8. \<^verbatim>\<open>fetch_companies\<close> returns the state as it was, so with no request added to
  \<open>sent\<close>, when the session is not authenticated. On status 200 with a dict body the
  new company list is read from the response alone. When the call raises or the
  status is not 200 the company list stays as it was.
\<close>

theorem fetch_companies_contract:
  "(\<not> authenticated s \<longrightarrow> fetch_companies net s = s) \<and>
   (authenticated s \<and> net (company_list_request s) = Inr resp \<and> status_code resp = 200
      \<and> json_body resp = Inr (JObj d) \<longrightarrow>
        companies (fetch_companies net s) = dict_get d ''companies'' (JList [])) \<and>
   (authenticated s \<and> (net (company_list_request s) = Inl e
        \<or> (net (company_list_request s) = Inr resp \<and> status_code resp \<noteq> 200)) \<longrightarrow>
        companies (fetch_companies net s) = companies s)"
proof (intro conjI impI)
  assume "\<not> authenticated s"
  then show "fetch_companies net s = s" by (simp add: fetch_companies_def)
next
  assume "authenticated s \<and> net (company_list_request s) = Inr resp \<and> status_code resp = 200
      \<and> json_body resp = Inr (JObj d)"
  then show "companies (fetch_companies net s) = dict_get d ''companies'' (JList [])"
    by (simp add: fetch_companies_ok)
next
  assume "authenticated s \<and> (net (company_list_request s) = Inl e
        \<or> (net (company_list_request s) = Inr resp \<and> status_code resp \<noteq> 200))"
  then show "companies (fetch_companies net s) = companies s"
    by (intro fetch_companies_failed) auto
qed

theorem fetch_companies_contract_witness:
  "\<not> authenticated session0 \<and> fetch_companies backend_up session0 = session0 \<and>
   authenticated session1 \<and>
   companies (fetch_companies backend_up session1) = JList [acme] \<and>
   companies (fetch_companies backend_401 session1) = companies session1 \<and>
   companies (fetch_companies backend_down session1) = companies session1"
proof -
  note u = session0_unauthenticated and a = session1_authenticated
  have up: "backend_up (company_list_request session1) = Inr companies_response"
    by (simp add: backend_up_def company_list_request_def session1_def session0_def
        init_session_def)
  have no: "backend_401 (company_list_request session1) = Inr denied_response"
    by (simp add: backend_401_def)
  have dn: "backend_down (company_list_request session1) = Inl ''Connection refused''"
    by (simp add: backend_down_def)
  from fetch_companies_contract[where s = session0 and net = backend_up] u
  have 1: "fetch_companies backend_up session0 = session0" by simp
  from fetch_companies_contract[where s = session1 and net = backend_up
      and resp = companies_response and d = "[(''companies'', JList [acme])]"] a up
  have 2: "companies (fetch_companies backend_up session1) = JList [acme]"
    by (simp add: dict_get_def companies_response_def)
  from fetch_companies_contract[where s = session1 and net = backend_401
      and resp = denied_response] a no
  have 3: "companies (fetch_companies backend_401 session1) = companies session1"
    by (simp add: denied_response_def)
  from fetch_companies_contract[where s = session1 and net = backend_down
      and e = "''Connection refused''"] a dn
  have 4: "companies (fetch_companies backend_down session1) = companies session1" by simp
  from u a 1 2 3 4 show ?thesis by simp
qed

text \<open>
  C10. A response with status 200 whose dict has no key \<^verbatim>\<open>companies\<close> sets the
  company list to the empty list.
\<close>

theorem fetch_companies_missing_key:
  assumes "authenticated s" and "net (company_list_request s) = Inr resp"
    and "status_code resp = 200" and "json_body resp = Inr (JObj d)"
    and "map_of d ''companies'' = None"
  shows "companies (fetch_companies net s) = JList []"
  using assms by (simp add: fetch_companies_ok dict_get_def)

theorem fetch_companies_missing_key_witness:
  "authenticated session1 \<and> companies session1 \<noteq> JList [] \<and>
   companies (fetch_companies backend_empty session1) = JList []"
proof -
  note a = session1_authenticated
  have r: "backend_empty (company_list_request session1) = Inr empty_response"
    by (simp add: backend_empty_def)
  have "companies (fetch_companies backend_empty session1) = JList []"
    using a r
    by (intro fetch_companies_missing_key[where net = backend_empty and d = "[]"
          and resp = empty_response])
      (simp_all add: empty_response_def)
  with a show ?thesis by (simp add: session1_def session0_def init_session_def)
qed

section \<open>Authentication: properties\<close>

lemma authenticate_granted:
  assumes "token_granted net s = Some d"
  shows "authenticate net s =
    (True, fetch_companies net
       (s\<lparr> sent := sent s @ [token_request s], access_token := dict_get d ''access'' JNull,
            authenticated := True \<rparr>))"
  using assms
  by (auto simp: authenticate_def token_granted_def post_def
      split: sum.splits json.splits if_splits)

lemma authenticate_refused:
  assumes "token_granted net s = None"
  shows "fst (authenticate net s) = False"
    and "authenticated (snd (authenticate net s)) = False"
    and "access_token (snd (authenticate net s)) = access_token s"
    and "companies (snd (authenticate net s)) = companies s"
    and "sent (snd (authenticate net s)) = sent s @ [token_request s]"
  using assms
  by (auto simp: authenticate_def token_granted_def post_def show_notice_def
       split: sum.splits json.splits if_splits)

text \<open>
  C3, as the code has it. When the token reply has status 200 and a dict body,
  \<^verbatim>\<open>authenticate\<close> returns \<^verbatim>\<open>True\<close>, sets \<open>authenticated\<close>, stores the body's
  \<^verbatim>\<open>access\<close> value as the token (\<^verbatim>\<open>None\<close> when the key is missing) and sends the
  company list request right after the token request. In every other case (the
  call raises, the status is not 200, the body does not decode to a dict) it
  returns \<^verbatim>\<open>False\<close>, clears \<open>authenticated\<close>, sends nothing more, and leaves the
  stored token as it was.
\<close>

theorem authenticate_outcome:
  "(case token_granted net s of
      Some d \<Rightarrow>
        fst (authenticate net s) \<and>
        authenticated (snd (authenticate net s)) \<and>
        access_token (snd (authenticate net s)) = dict_get d ''access'' JNull \<and>
        sent (snd (authenticate net s)) =
          sent s @ [token_request s, company_list_request (snd (authenticate net s))]
    | None \<Rightarrow>
        \<not> fst (authenticate net s) \<and>
        \<not> authenticated (snd (authenticate net s)) \<and>
        access_token (snd (authenticate net s)) = access_token s \<and>
        sent (snd (authenticate net s)) = sent s @ [token_request s])"
proof (cases "token_granted net s")
  case None
  then show ?thesis by (simp add: authenticate_refused)
next
  case (Some d)
  then show ?thesis
    by (simp add: authenticate_granted fetch_companies_keeps fetch_companies_sent
        company_list_request_def)
qed

lemma granted_up: "token_granted backend_up session0 = Some [(''access'', JStr ''tok'')]"
  by (simp add: token_granted_def backend_up_def session0_def init_session_def
      token_request_def token_response_def)

lemma refused_401: "token_granted backend_401 s = None"
  by (simp add: token_granted_def backend_401_def denied_response_def)

lemma refused_down: "token_granted backend_down s = None"
  by (simp add: token_granted_def backend_down_def)

lemma granted_empty: "token_granted backend_empty s = Some []"
  by (simp add: token_granted_def backend_empty_def empty_response_def)

theorem authenticate_outcome_witness:
  "fst (authenticate backend_up session0) \<and>
   authenticated (snd (authenticate backend_up session0)) \<and>
   access_token (snd (authenticate backend_up session0)) = JStr ''tok'' \<and>
   length (sent (snd (authenticate backend_up session0))) = 2 \<and>
   \<not> fst (authenticate backend_down session1) \<and>
   \<not> authenticated (snd (authenticate backend_down session1)) \<and>
   access_token (snd (authenticate backend_down session1)) = JStr ''tok''"
proof -
  have t: "access_token session1 = JStr ''tok''"
    by (simp add: session1_def session0_def init_session_def)
  have s: "sent session0 = []" by (simp add: session0_def init_session_def)
  from authenticate_outcome[of backend_up session0] authenticate_outcome[of backend_down session1]
  show ?thesis by (simp add: granted_up refused_down dict_get_def t s)
qed

text \<open>
  C3 as stated fails twice. A refused attempt after a granted one leaves the
  session unauthenticated with the old token still stored; and a granted reply
  without an \<^verbatim>\<open>access\<close> key leaves the session authenticated with no token.
\<close>

theorem authenticate_token_counterexample:
  "\<not> authenticated (snd (authenticate backend_401 (snd (authenticate backend_up session0)))) \<and>
   access_token (snd (authenticate backend_401 (snd (authenticate backend_up session0))))
     = JStr ''tok'' \<and>
   authenticated (snd (authenticate backend_empty session0)) \<and>
   access_token (snd (authenticate backend_empty session0)) = JNull"
  by (simp add: authenticate_refused refused_401 authenticate_granted granted_up granted_empty
      fetch_companies_keeps dict_get_def)

section \<open>Session invariant\<close>

lemma step_inv:
  assumes "token_contract e s" and "authenticated s \<longrightarrow> access_token s \<noteq> JNull"
  shows "authenticated (step e s) \<longrightarrow> access_token (step e s) \<noteq> JNull"
proof (cases e)
  case (Authenticate net)
  show ?thesis
  proof (cases "token_granted net s")
    case None
    then show ?thesis using Authenticate by (simp add: authenticate_refused)
  next
    case (Some d)
    then show ?thesis using Authenticate assms(1)
      by (simp add: authenticate_granted fetch_companies_keeps)
  qed
next
  case (Fetch_companies net)
  then show ?thesis using assms(2) by (simp add: fetch_companies_keeps)
qed

lemma run_inv:
  "contract_run es s \<Longrightarrow> (authenticated s \<longrightarrow> access_token s \<noteq> JNull) \<Longrightarrow>
   authenticated (run es s) \<longrightarrow> access_token (run es s) \<noteq> JNull"
proof (induction es arbitrary: s)
  case Nil
  then show ?case by simp
next
  case (Cons e es)
  from Cons.prems have "authenticated (step e s) \<longrightarrow> access_token (step e s) \<noteq> JNull"
    by (simp add: step_inv)
  with Cons show ?case by simp
qed

text \<open>
  C4, as the code has it. Along every run from the initial session in which each
  granted token response carries an \<^verbatim>\<open>access\<close> value, an authenticated session
  holds a token. The converse is not an invariant.
\<close>

theorem token_present_when_authenticated:
  assumes "contract_run es (init_session u p b)"
  shows "authenticated (run es (init_session u p b)) \<longrightarrow>
         access_token (run es (init_session u p b)) \<noteq> JNull"
  using assms by (rule run_inv) (simp add: init_session_def)

theorem token_present_when_authenticated_witness:
  "contract_run [Authenticate backend_up, Fetch_companies backend_up] session0 \<and>
   authenticated (run [Authenticate backend_up, Fetch_companies backend_up] session0) \<and>
   access_token (run [Authenticate backend_up, Fetch_companies backend_up] session0) \<noteq> JNull"
proof -
  have c: "contract_run [Authenticate backend_up, Fetch_companies backend_up]
     (init_session ''username'' ''password'' ''https://example.com'')"
    using granted_up by (simp add: session0_def dict_get_def)
  have a: "authenticated (run [Authenticate backend_up, Fetch_companies backend_up]
     (init_session ''username'' ''password'' ''https://example.com''))"
    using granted_up by (simp add: session0_def authenticate_granted fetch_companies_keeps)
  from token_present_when_authenticated[OF c] a c show ?thesis by (simp add: session0_def)
qed

text \<open>
  C4 as stated fails: after a granted and then a refused attempt the session is
  unauthenticated and still holds the token.
\<close>

theorem token_iff_authenticated_counterexample:
  "\<not> authenticated (run [Authenticate backend_up, Authenticate backend_401] session0) \<and>
   access_token (run [Authenticate backend_up, Authenticate backend_401] session0) \<noteq> JNull"
  by (simp add: authenticate_refused refused_401 authenticate_granted granted_up
      fetch_companies_keeps dict_get_def)


section \<open>Batch questions: properties\<close>

lemma gather_run_values:
  "length slots = length vs \<Longrightarrow>
   gather_run order (map Inr vs) slots =
     Inr (map (\<lambda>i. if i \<in> set order then Some (vs ! i) else slots ! i) [0..<length vs])"
proof (induction order arbitrary: slots)
  case Nil
  have "map ((!) slots) [0..<length slots] = slots" by (rule map_nth)
  with Nil show ?case by simp
next
  case (Cons i order)
  show ?case
  proof (cases "i < length vs")
    case True
    have "gather_run (i # order) (map Inr vs) slots
            = gather_run order (map Inr vs) (slots[i := Some (vs ! i)])"
      using True by simp
    also have "\<dots> = Inr (map (\<lambda>j. if j \<in> set order then Some (vs ! j)
                                   else slots[i := Some (vs ! i)] ! j) [0..<length vs])"
      using Cons.prems by (intro Cons.IH) simp
    also have "\<dots> = Inr (map (\<lambda>j. if j \<in> set (i # order) then Some (vs ! j) else slots ! j)
                          [0..<length vs])"
      using Cons.prems by (auto simp: nth_list_update)
    finally show ?thesis .
  next
    case False
    then show ?thesis using Cons by auto
  qed
qed

lemma map_filter_Some: "List.map_filter (\<lambda>slot. slot) (map Some vs) = vs"
  by (induction vs) simp_all

lemma gather_values:
  assumes "{0..<length vs} \<subseteq> set order"
  shows "gather order (map Inr vs) = Inr vs"
proof -
  have "gather_run order (map Inr vs) (replicate (length vs) None)
          = Inr (map (\<lambda>i. if i \<in> set order then Some (vs ! i)
                              else replicate (length vs) None ! i) [0..<length vs])"
    by (rule gather_run_values) simp
  also have "map (\<lambda>i. if i \<in> set order then Some (vs ! i)
                         else replicate (length vs) None ! i) [0..<length vs] = map Some vs"
    using assms by (intro nth_equalityI) auto
  finally show ?thesis by (simp add: gather_def map_filter_Some)
qed

lemma gather_run_Inr:
  "gather_run order aws slots = Inr slots' \<Longrightarrow> i \<in> set order \<Longrightarrow> i < length aws \<Longrightarrow>
   \<exists>v. aws ! i = Inr v"
proof (induction order arbitrary: slots)
  case Nil
  then show ?case by simp
next
  case (Cons j order)
  then show ?case by (auto split: if_splits sum.splits)
qed

lemma gather_run_Inl:
  "gather_run order aws slots = Inl e \<Longrightarrow> \<exists>i \<in> set order. i < length aws \<and> aws ! i = Inl e"
proof (induction order arbitrary: slots)
  case Nil
  then show ?case by simp
next
  case (Cons j order)
  then show ?case by (auto split: if_splits sum.splits)
qed

lemma all_Inr_map: 
  assumes "\<forall>i<length aws. \<exists>v. aws ! i = Inr v"
  shows "\<exists>vs. aws = map Inr vs"
  using assms
proof (induction aws)
  case Nil
  then show ?case by simp
next
  case (Cons a aws)
  from Cons.prems have "\<forall>i<length aws. \<exists>v. aws ! i = Inr v" by fastforce
  then obtain vs where "aws = map Inr vs" using Cons.IH by blast
  moreover from Cons.prems obtain v where "a = Inr v" by fastforce
  ultimately have "a # aws = map Inr (v # vs)" by simp
  then show ?case by (rule exI)
qed

lemma gather_Inr_iff:
  assumes "completion_order order (length aws)"
  shows "gather order aws = Inr vs \<longleftrightarrow> aws = map Inr vs"
proof
  assume "aws = map Inr vs"
  then show "gather order aws = Inr vs"
    using assms gather_values[of vs order] by (simp add: completion_order_def)
next
  assume g: "gather order aws = Inr vs"
  then obtain slots where "gather_run order aws (replicate (length aws) None) = Inr slots"
    by (auto simp: gather_def split: sum.splits)
  then have "\<forall>i<length aws. \<exists>v. aws ! i = Inr v"
    using assms gather_run_Inr[of order aws _ slots] by (auto simp: completion_order_def)
  then obtain ws where ws: "aws = map Inr ws" using all_Inr_map by blast
  then have "gather order aws = Inr ws"
    using assms gather_values[of ws order] by (simp add: completion_order_def)
  with g ws show "aws = map Inr vs" by simp
qed

lemma gather_Inl:
  assumes "gather order aws = Inl e"
  shows "\<exists>i<length aws. aws ! i = Inl e"
  using assms gather_run_Inl[of order aws _ e] by (auto simp: gather_def split: sum.splits)

lemma results_loop_acc:
  "results_loop responses acc = Inr rs \<longleftrightarrow>
     (\<exists>rs'. rs = acc @ rs' \<and> list_all2 (\<lambda>resp entry. qa_entry (Inr resp) entry) responses rs')"
proof (induction responses arbitrary: acc)
  case Nil
  then show ?case by auto
next
  case (Cons resp responses)
  show ?case
  proof (cases "status_code resp = 200")
    case True
    then show ?thesis
      by (cases "json_body resp") (auto simp: Cons.IH qa_entry_def list_all2_Cons1)
  next
    case False
    then show ?thesis
      by (auto simp: Cons.IH qa_entry_def list_all2_Cons1)
  qed
qed

lemma map_eq_map_Inr:
  "map f xs = map Inr ys \<longleftrightarrow> list_all2 (\<lambda>x y. f x = Inr y) xs ys"
  by (induction xs arbitrary: ys) (auto simp: list_all2_Cons1)

lemma fetch_company_qa_responses_iff:
  assumes "completion_order order (length qa_list)"
  shows "fetch_company_qa_responses order net s company_domain qa_list token = Inr row \<longleftrightarrow>
     list_all2 (\<lambda>qa_dict entry. qa_entry (net (batch_request s company_domain qa_dict token)) entry)
       qa_list row"
    (is "?L \<longleftrightarrow> ?R")
proof -
  let ?f = "\<lambda>qa_dict. net (batch_request s company_domain qa_dict token)"
  have c: "completion_order order (length (map ?f qa_list))"
    using assms by simp
  have "?L \<longleftrightarrow> (\<exists>responses. map ?f qa_list = map Inr responses \<and> results_loop responses [] = Inr row)"
  proof (cases "gather order (map ?f qa_list)")
    case (Inl e)
    then have "\<not> (\<exists>responses. map ?f qa_list = map Inr responses)"
      using gather_Inr_iff[OF c] by auto
    with Inl show ?thesis by (simp add: fetch_company_qa_responses_def)
  next
    case (Inr responses)
    then have "map ?f qa_list = map Inr responses"
      using gather_Inr_iff[OF c] by simp
    with Inr show ?thesis
      by (auto simp: fetch_company_qa_responses_def inj_map_eq_map[OF inj_Inr])
  qed
  also have "\<dots> \<longleftrightarrow> (\<exists>responses. list_all2 (\<lambda>q resp. ?f q = Inr resp) qa_list responses \<and>
        list_all2 (\<lambda>resp entry. qa_entry (Inr resp) entry) responses row)"
    by (simp add: map_eq_map_Inr results_loop_acc)
  also have "\<dots> \<longleftrightarrow> (list_all2 (\<lambda>q resp. ?f q = Inr resp) OO
        list_all2 (\<lambda>resp entry. qa_entry (Inr resp) entry)) qa_list row"
    by (simp add: relcompp_apply)
  also have "\<dots> \<longleftrightarrow> list_all2 ((\<lambda>q resp. ?f q = Inr resp) OO
        (\<lambda>resp entry. qa_entry (Inr resp) entry)) qa_list row"
    by (simp add: list.rel_compp)
  also have "((\<lambda>q resp. ?f q = Inr resp) OO (\<lambda>resp entry. qa_entry (Inr resp) entry))
        = (\<lambda>qa_dict entry. qa_entry (?f qa_dict) entry)"
    by (auto simp: relcompp_apply fun_eq_iff qa_entry_def split: sum.splits)
  finally show ?thesis .
qed

lemma fetch_qa_responses_iff:
  assumes "completion_order order (length domains_list)"
    and "\<forall>i<length domains_list. completion_order (inner i) (length qa_list)"
  shows "fetch_qa_responses order inner net s domains_list qa_list = Inr results \<longleftrightarrow>
     list_all2
       (\<lambda>domain row.
          list_all2
            (\<lambda>qa_dict entry.
               qa_entry (net (batch_request s domain qa_dict (access_token s))) entry)
            qa_list row)
       domains_list results"
    (is "?L \<longleftrightarrow> ?R")
proof -
  let ?task = "\<lambda>(i, domain).
     fetch_company_qa_responses (inner i) net s domain qa_list (access_token s)"
  let ?row = "\<lambda>domain row. list_all2
            (\<lambda>qa_dict entry.
               qa_entry (net (batch_request s domain qa_dict (access_token s))) entry)
            qa_list row"
  have c: "completion_order order (length (map ?task (enumerate 0 domains_list)))"
    using assms(1) by simp
  have r: "fetch_company_qa_responses (inner i) net s (domains_list ! i) qa_list (access_token s)
            = Inr (results ! i) \<longleftrightarrow> ?row (domains_list ! i) (results ! i)"
    if "i < length domains_list" for i
    using assms(2) that by (intro fetch_company_qa_responses_iff) simp
  have "?L \<longleftrightarrow> map ?task (enumerate 0 domains_list) = map Inr results"
    unfolding fetch_qa_responses_def Let_def by (rule gather_Inr_iff[OF c])
  also have "\<dots> \<longleftrightarrow> list_all2 (\<lambda>p row. ?task p = Inr row) (enumerate 0 domains_list) results"
    by (rule map_eq_map_Inr)
  also have "\<dots> \<longleftrightarrow> (length domains_list = length results \<and>
       (\<forall>i<length domains_list.
          fetch_company_qa_responses (inner i) net s (domains_list ! i) qa_list (access_token s)
            = Inr (results ! i)))"
    by (simp add: list_all2_conv_all_nth nth_enumerate_eq)
  also have "\<dots> \<longleftrightarrow> (length domains_list = length results \<and>
       (\<forall>i<length domains_list. ?row (domains_list ! i) (results ! i)))"
    using r by blast
  also have "\<dots> \<longleftrightarrow> ?R"
    unfolding list_all2_conv_all_nth[of ?row] ..
  finally show ?thesis .
qed

lemma list_all2_exists:
  "(\<forall>x\<in>set xs. \<exists>y. P x y) \<Longrightarrow> \<exists>ys. list_all2 P xs ys"
proof (induction xs)
  case Nil
  then show ?case by simp
next
  case (Cons x xs)
  then obtain y ys where "P x y" "list_all2 P xs ys" by auto
  then have "list_all2 P (x # xs) (y # ys)" by simp
  then show ?case by (rule exI)
qed


text \<open>
  C1. For every order in which the domains' coroutines finish and every order in
  which each domain's requests finish, \<^verbatim>\<open>fetch_qa_responses\<close> returns \<open>results\<close>
  exactly when \<open>results\<close> has one row per domain, in the order of
  \<open>domains_list\<close>, each row has one entry per question, in the order of \<open>qa_list\<close>,
  and each entry is what the reply to that domain and question gives. It does
  return whenever every request is answered with a response whose body decodes
  when its status is 200.
\<close>

theorem fetch_qa_responses_order:
  assumes "completion_order order (length domains_list)"
    and "\<forall>i<length domains_list. completion_order (inner i) (length qa_list)"
  shows "(fetch_qa_responses order inner net s domains_list qa_list = Inr results \<longleftrightarrow>
          list_all2
            (\<lambda>domain row.
               list_all2
                 (\<lambda>qa_dict entry.
                    qa_entry (net (batch_request s domain qa_dict (access_token s))) entry)
                 qa_list row)
            domains_list results) \<and>
         ((\<forall>domain\<in>set domains_list. \<forall>qa_dict\<in>set qa_list.
             \<exists>entry. qa_entry (net (batch_request s domain qa_dict (access_token s))) entry) \<longrightarrow>
          (\<exists>matrix. fetch_qa_responses order inner net s domains_list qa_list = Inr matrix))"
proof (intro conjI impI)
  show "fetch_qa_responses order inner net s domains_list qa_list = Inr results \<longleftrightarrow>
          list_all2
            (\<lambda>domain row.
               list_all2
                 (\<lambda>qa_dict entry.
                    qa_entry (net (batch_request s domain qa_dict (access_token s))) entry)
                 qa_list row)
            domains_list results"
    using assms by (rule fetch_qa_responses_iff)
next
  let ?row = "\<lambda>domain row. list_all2
                 (\<lambda>qa_dict entry.
                    qa_entry (net (batch_request s domain qa_dict (access_token s))) entry)
                 qa_list row"
  assume a: "\<forall>domain\<in>set domains_list. \<forall>qa_dict\<in>set qa_list.
             \<exists>entry. qa_entry (net (batch_request s domain qa_dict (access_token s))) entry"
  have "\<forall>domain\<in>set domains_list. \<exists>row. ?row domain row"
  proof
    fix domain
    assume "domain \<in> set domains_list"
    with a have "\<forall>qa_dict\<in>set qa_list.
        \<exists>entry. qa_entry (net (batch_request s domain qa_dict (access_token s))) entry"
      by (rule bspec)
    then show "\<exists>row. ?row domain row" by (rule list_all2_exists)
  qed
  then have "\<exists>matrix. list_all2 ?row domains_list matrix" by (rule list_all2_exists)
  then obtain matrix where "list_all2 ?row domains_list matrix" ..
  then have "fetch_qa_responses order inner net s domains_list qa_list = Inr matrix"
    using fetch_qa_responses_iff[OF assms] by simp
  then show "\<exists>matrix. fetch_qa_responses order inner net s domains_list qa_list = Inr matrix"
    by (rule exI)
qed

theorem fetch_qa_responses_order_witness:
  "completion_order [1, 0] (length [''a.com'', ''b.com'']) \<and>
   completion_order (inner_order 0) (length [JStr ''Q1'', JStr ''Q2'']) \<and>
   completion_order (inner_order 1) (length [JStr ''Q1'', JStr ''Q2'']) \<and>
   fetch_qa_responses [1, 0] inner_order qa_backend session1
       [''a.com'', ''b.com''] [JStr ''Q1'', JStr ''Q2''] =
     Inr [[JObj [(''output'', JStr ''a1'')], JObj [(''output'', JStr ''a2'')]],
          [JObj [(''output'', JStr ''b1'')],
           JObj [(''error'', JStr ''Failed to fetch response'')]]]"
proof -
  have o: "completion_order [1, 0] (length [''a.com'', ''b.com''])"
    unfolding completion_order_def by code_simp
  have i: "\<forall>i<length [''a.com'', ''b.com''].
      completion_order (inner_order i) (length [JStr ''Q1'', JStr ''Q2''])"
  proof (intro allI impI)
    fix i :: nat
    have "completion_order [1, 0] (Suc (Suc 0))" "completion_order [0, 1] (Suc (Suc 0))"
      unfolding completion_order_def by code_simp+
    then show "completion_order (inner_order i) (length [JStr ''Q1'', JStr ''Q2''])"
      by (simp add: inner_order_def)
  qed
  have "fetch_qa_responses [1, 0] inner_order qa_backend session1
       [''a.com'', ''b.com''] [JStr ''Q1'', JStr ''Q2''] =
     Inr [[JObj [(''output'', JStr ''a1'')], JObj [(''output'', JStr ''a2'')]],
          [JObj [(''output'', JStr ''b1'')],
           JObj [(''error'', JStr ''Failed to fetch response'')]]]"
    unfolding fetch_qa_responses_order[OF o i, THEN conjunct1]
    by (simp add: qa_entry_def qa_backend_def batch_request_def qa_payload_def
        answer_response_def denied_response_def)
  moreover from i have "completion_order (inner_order 0) (length [JStr ''Q1'', JStr ''Q2''])"
    and "completion_order (inner_order 1) (length [JStr ''Q1'', JStr ''Q2''])"
    by simp_all
  ultimately show ?thesis using o by simp
qed

text \<open>
  C2 on the code. The second question for the second domain ends in a transport
  failure. \<^verbatim>\<open>asyncio.gather\<close> is called without \<^verbatim>\<open>return_exceptions\<close> and nothing
  catches the exception, so the whole batch raises it: no result matrix comes
  back, and the three answered requests are lost with it.
\<close>

theorem fetch_qa_responses_transport_failure:
  "fetch_qa_responses [0, 1] inner_order flaky_backend session1
       [''a.com'', ''b.com''] [JStr ''Q1'', JStr ''Q2''] = Inl ''Connection reset''"
  by code_simp

section \<open>Crawl form: properties\<close>

lemma last_dropWhile_eq: "dropWhile P xs \<noteq> [] \<Longrightarrow> last (dropWhile P xs) = last xs"
proof -
  assume a: "dropWhile P xs \<noteq> []"
  have "last (takeWhile P xs @ dropWhile P xs) = last (dropWhile P xs)"
    using a by (rule last_appendR)
  then show ?thesis by simp
qed

lemma strip_ends:
  assumes "strip s \<noteq> []"
  shows "\<not> is_space (hd (strip s)) \<and> \<not> is_space (last (strip s))"
proof -
  let ?t = "dropWhile is_space s"
  let ?u = "dropWhile is_space (rev ?t)"
  have u: "?u \<noteq> []" using assms by (simp add: strip_def)
  have t: "?t \<noteq> []"
  proof
    assume "?t = []"
    then have "?u = []" by (simp only: rev.simps dropWhile.simps)
    with u show False ..
  qed
  have "last (strip s) = hd ?u" using u by (simp add: strip_def last_rev)
  moreover have "\<not> is_space (hd ?u)" using u by (rule hd_dropWhile)
  moreover have "hd (strip s) = last ?u" using u by (simp add: strip_def hd_rev)
  moreover have "last ?u = last (rev ?t)" using u by (rule last_dropWhile_eq)
  moreover have "last (rev ?t) = hd ?t" using t by (simp add: last_rev)
  moreover have "\<not> is_space (hd ?t)" using t by (rule hd_dropWhile)
  ultimately show ?thesis by simp
qed

lemma parse_domains_trimmed:
  assumes "d \<in> set (parse_domains company_domains)"
  shows "d \<noteq> [] \<and> \<not> is_space (hd d) \<and> \<not> is_space (last d)"
proof -
  from assms obtain x where "d = strip x" "strip x \<noteq> []"
    by (auto simp: parse_domains_def)
  then show ?thesis using strip_ends by simp
qed

lemma sent_show_notice: "sent (show_notice n s) = sent s"
  by (simp add: show_notice_def)

lemma sent_write_all:
  "sent (foldl (\<lambda>st domain. show_notice (f domain) st) s ds) = sent s"
  by (induction ds arbitrary: s) (simp_all add: sent_show_notice)

lemma submit_crawl_sent:
  "sent (submit_crawl net company_domains crawl_type custom_prompt s) =
     (if authenticated s \<and> company_domains \<noteq> []
          \<and> \<not> (crawl_type = ''Custom Prompt'' \<and> falsy custom_prompt)
          \<and> parse_domains company_domains \<noteq> []
      then sent s @ [crawl_request s (parse_domains company_domains) crawl_type custom_prompt]
      else sent s)"
  by (simp add: submit_crawl_def post_def Let_def sent_show_notice sent_write_all
      split: sum.splits json.splits)

text \<open>
  C5. When the domains box is empty, or the crawl type is the custom prompt and
  the prompt is empty or absent, the submit handler sends no request: \<open>sent\<close> is
  unchanged and the state differs from the one before only by an error notice.
\<close>

theorem submit_crawl_rejects_locally:
  assumes "company_domains = [] \<or> (crawl_type = ''Custom Prompt'' \<and> falsy custom_prompt)"
  shows "sent (submit_crawl net company_domains crawl_type custom_prompt s) = sent s \<and>
         (\<exists>msg. submit_crawl net company_domains crawl_type custom_prompt s
                  = show_notice (St_error msg) s)"
  using assms by (auto simp: submit_crawl_def show_notice_def)

theorem submit_crawl_rejects_locally_witness:
  "sent (submit_crawl backend_up [] ''Lite Crawl'' None session1) = sent session1 \<and>
   submit_crawl backend_up [] ''Lite Crawl'' None session1
     = show_notice (St_error ''Please enter at least one company domain'') session1 \<and>
   falsy (custom_prompt_of ''Custom Prompt'' []) \<and>
   sent (submit_crawl backend_up ''x.com'' ''Custom Prompt''
           (custom_prompt_of ''Custom Prompt'' []) session1) = sent session1 \<and>
   submit_crawl backend_up ''x.com'' ''Custom Prompt''
       (custom_prompt_of ''Custom Prompt'' []) session1
     = show_notice (St_error ''Please enter a custom prompt'') session1"
proof -
  have f: "falsy (custom_prompt_of ''Custom Prompt'' [])"
    by (simp add: custom_prompt_of_def)
  note a = session1_authenticated
  from submit_crawl_rejects_locally[of "[]" "''Lite Crawl''" None backend_up session1]
  have 1: "sent (submit_crawl backend_up [] ''Lite Crawl'' None session1) = sent session1"
    by simp
  from submit_crawl_rejects_locally[of "''x.com''" "''Custom Prompt''"
      "custom_prompt_of ''Custom Prompt'' []" backend_up session1] f
  have 2: "sent (submit_crawl backend_up ''x.com'' ''Custom Prompt''
           (custom_prompt_of ''Custom Prompt'' []) session1) = sent session1"
    by simp
  from 1 2 f a show ?thesis by (simp add: submit_crawl_def custom_prompt_of_def)
qed

text \<open>
  C6, as the code has it. Whenever the submit handler sends a request, it sends
  exactly one; its payload lists the non-blank lines of the domains box, each
  stripped of surrounding whitespace, in the order typed and with repeated
  domains kept; the list is not empty; the payload has the keys
  \<^verbatim>\<open>company_domains\<close> and \<^verbatim>\<open>lite_crawl\<close>, and the key \<^verbatim>\<open>prompt\<close>, with the non-empty
  prompt, exactly when the crawl type is the custom prompt.
\<close>

theorem crawl_payload_sent:
  assumes "sent (submit_crawl net company_domains crawl_type custom_prompt s) \<noteq> sent s"
  shows "\<exists>req payload.
     sent (submit_crawl net company_domains crawl_type custom_prompt s) = sent s @ [req] \<and>
     data req = Some (JObj payload) \<and>
     parse_domains company_domains \<noteq> [] \<and>
     (\<forall>d\<in>set (parse_domains company_domains).
         d \<noteq> [] \<and> \<not> is_space (hd d) \<and> \<not> is_space (last d)) \<and>
     (crawl_type \<noteq> ''Custom Prompt'' \<longrightarrow>
        payload = [(''company_domains'', JList (map JStr (parse_domains company_domains))),
                   (''lite_crawl'', JBool (crawl_type = ''Lite Crawl''))]) \<and>
     (crawl_type = ''Custom Prompt'' \<longrightarrow>
        (\<exists>p. custom_prompt = Some p \<and> p \<noteq> [] \<and>
           payload = [(''company_domains'', JList (map JStr (parse_domains company_domains))),
                      (''lite_crawl'', JBool False),
                      (''prompt'', JStr p)]))"
proof -
  let ?ds = "parse_domains company_domains"
  let ?req = "crawl_request s ?ds crawl_type custom_prompt"
  from assms have c: "authenticated s" "company_domains \<noteq> []"
      "\<not> (crawl_type = ''Custom Prompt'' \<and> falsy custom_prompt)" "?ds \<noteq> []"
    and s: "sent (submit_crawl net company_domains crawl_type custom_prompt s) = sent s @ [?req]"
    by (auto simp: submit_crawl_sent split: if_splits)
  have d: "data ?req = Some (JObj (crawl_payload ?ds crawl_type custom_prompt))"
    by (simp add: crawl_request_def)
  have l: "crawl_type \<noteq> ''Custom Prompt'' \<longrightarrow>
        crawl_payload ?ds crawl_type custom_prompt =
          [(''company_domains'', JList (map JStr ?ds)),
           (''lite_crawl'', JBool (crawl_type = ''Lite Crawl''))]"
    by (simp add: crawl_payload_def Let_def split: option.splits)
  have p: "crawl_type = ''Custom Prompt'' \<longrightarrow>
        (\<exists>p. custom_prompt = Some p \<and> p \<noteq> [] \<and>
           crawl_payload ?ds crawl_type custom_prompt =
             [(''company_domains'', JList (map JStr ?ds)),
              (''lite_crawl'', JBool False),
              (''prompt'', JStr p)])"
    using c(3) by (cases custom_prompt) (auto simp: crawl_payload_def Let_def)
  from s d c(4) l p parse_domains_trimmed show ?thesis by blast
qed

theorem crawl_payload_sent_witness:
  "sent (submit_crawl backend_up ''x.com\<newline>y.com'' ''Lite Crawl''
           (custom_prompt_of ''Lite Crawl'' []) session1) \<noteq> sent session1 \<and>
   map data (sent (submit_crawl backend_up ''x.com\<newline>y.com'' ''Lite Crawl''
                     (custom_prompt_of ''Lite Crawl'' []) session1)) =
     [Some (JObj [(''company_domains'', JList [JStr ''x.com'', JStr ''y.com'']),
                  (''lite_crawl'', JBool True)])]"
proof -
  let ?s = "submit_crawl backend_up ''x.com\<newline>y.com'' ''Lite Crawl''
              (custom_prompt_of ''Lite Crawl'' []) session1"
  have e: "sent session1 = []" by (simp add: session1_def session0_def init_session_def)
  have pd: "parse_domains ''x.com\<newline>y.com'' = [''x.com'', ''y.com'']" by code_simp
  have h: "sent ?s \<noteq> sent session1"
    by (simp add: submit_crawl_sent session1_authenticated pd)
  from crawl_payload_sent[OF h] obtain req payload where
    "sent ?s = sent session1 @ [req]" "data req = Some (JObj payload)"
    "payload = [(''company_domains'', JList (map JStr (parse_domains ''x.com\<newline>y.com''))),
                (''lite_crawl'', JBool (''Lite Crawl'' = ''Lite Crawl''))]"
    by auto
  with h e pd show ?thesis by simp
qed

text \<open>
  C6 as stated fails on deduplication: a domain typed twice is sent twice.
\<close>

theorem crawl_duplicates_counterexample:
  "map data (sent (submit_crawl backend_up ''a.com\<newline>a.com'' ''Lite Crawl'' None session1)) =
     [Some (JObj [(''company_domains'', JList [JStr ''a.com'', JStr ''a.com'']),
                  (''lite_crawl'', JBool True)])]"
  by code_simp


section \<open>Chat: properties\<close>

lemma history_append_message: "history (append_message m s) = history s @ [m]"
  by (simp add: append_message_def history_def)

lemma history_show_notice: "history (show_notice n s) = history s"
  by (simp add: show_notice_def history_def)

lemma history_ensure_messages: "history (ensure_messages s) = history s"
  by (simp add: ensure_messages_def history_def split: option.splits)

lemma history_sent_update: "history (s\<lparr> sent := x \<rparr>) = history s"
  by (simp add: history_def)

lemma history_qa_failed:
  "history (qa_failed error_msg s) =
     history s @ [JObj [(''role'', JStr ''assistant''),
                        (''content'', JStr (warning_sign @ '' '' @ error_msg))]]"
  by (simp add: qa_failed_def history_append_message history_show_notice)

lemma sent_simps:
  "sent (append_message m s) = sent s"
  "sent (show_notice n s) = sent s"
  "sent (ensure_messages s) = sent s"
  "sent (qa_failed error_msg s) = sent s"
  by (simp_all add: append_message_def show_notice_def ensure_messages_def qa_failed_def
      split: option.splits)

lemma qa_request_cong:
  "base_url s' = base_url s \<Longrightarrow> access_token s' = access_token s \<Longrightarrow>
   qa_request s' selected_domain qa_dict = qa_request s selected_domain qa_dict"
  by (simp add: qa_request_def)

lemma keeps_simps:
  "base_url (append_message m s) = base_url s"
  "base_url (show_notice n s) = base_url s"
  "base_url (ensure_messages s) = base_url s"
  "access_token (append_message m s) = access_token s"
  "access_token (show_notice n s) = access_token s"
  "access_token (ensure_messages s) = access_token s"
  by (simp_all add: append_message_def show_notice_def ensure_messages_def
      split: option.splits)

text \<open>
  C9. For a submitted prompt the handler leaves the chat history as it was and
  appends exactly two entries: the user entry with the prompt, then one entry
  whose role is \<^verbatim>\<open>assistant\<close>. This holds for every reply of the backend: an
  answer, a status other than 200, a body that does not decode, or a call that
  raises.
\<close>

theorem chat_prompt_history:
  assumes "prompt = Some p" and "p \<noteq> []"
  shows "\<exists>assistant.
     history (chat_prompt net w now selected_domain prompt s) =
       history s @ [JObj [(''role'', JStr ''user''), (''content'', JStr p)], JObj assistant] \<and>
     map_of assistant ''role'' = Some (JStr ''assistant'')"
  using assms
  by (auto simp: chat_prompt_def post_def Let_def history_append_message history_show_notice
      history_ensure_messages history_sent_update history_qa_failed
      split: sum.splits json.splits)

theorem chat_prompt_history_witness:
  "history (chat_prompt chat_backend widgets0 ''2025-01-01T00:00:00'' ''acme.com''
      (Some ''What does Acme do?'') session1) =
     [JObj [(''role'', JStr ''user''), (''content'', JStr ''What does Acme do?'')],
      JObj [(''role'', JStr ''assistant''),
            (''content'', JStr ''Acme makes anvils.''),
            (''json_output'',
               JObj [(''query'', JStr ''What does Acme do?''),
                     (''response'', JStr ''Acme makes anvils.''),
                     (''company_domain'', JStr ''acme.com''),
                     (''timestamp'', JStr ''2025-01-01T00:00:00''),
                     (''full_response'', JObj [(''output'', JStr ''Acme makes anvils.'')])])]] \<and>
   length (history (chat_prompt backend_401 widgets0 ''2025-01-01T00:00:00'' ''acme.com''
      (Some ''What does Acme do?'') session1)) = 2 \<and>
   length (history (chat_prompt backend_down widgets0 ''2025-01-01T00:00:00'' ''acme.com''
      (Some ''What does Acme do?'') session1)) = 2"
proof -
  have h: "history session1 = []"
    by (simp add: history_def session1_def session0_def init_session_def)
  have ok: "history (chat_prompt chat_backend widgets0 ''2025-01-01T00:00:00'' ''acme.com''
      (Some ''What does Acme do?'') session1) =
     [JObj [(''role'', JStr ''user''), (''content'', JStr ''What does Acme do?'')],
      JObj [(''role'', JStr ''assistant''),
            (''content'', JStr ''Acme makes anvils.''),
            (''json_output'',
               JObj [(''query'', JStr ''What does Acme do?''),
                     (''response'', JStr ''Acme makes anvils.''),
                     (''company_domain'', JStr ''acme.com''),
                     (''timestamp'', JStr ''2025-01-01T00:00:00''),
                     (''full_response'', JObj [(''output'', JStr ''Acme makes anvils.'')])])]]"
    by (simp add: chat_prompt_def post_def chat_backend_def answer_response_def dict_get_def
        Let_def history_append_message history_show_notice history_ensure_messages
        history_sent_update h)
  from chat_prompt_history[of "Some ''What does Acme do?''" "''What does Acme do?''"
      backend_401 widgets0 "''2025-01-01T00:00:00''" "''acme.com''" session1]
  have 1: "length (history (chat_prompt backend_401 widgets0 ''2025-01-01T00:00:00''
      ''acme.com'' (Some ''What does Acme do?'') session1)) = 2"
    by (auto simp: h)
  from chat_prompt_history[of "Some ''What does Acme do?''" "''What does Acme do?''"
      backend_down widgets0 "''2025-01-01T00:00:00''" "''acme.com''" session1]
  have 2: "length (history (chat_prompt backend_down widgets0 ''2025-01-01T00:00:00''
      ''acme.com'' (Some ''What does Acme do?'') session1)) = 2"
    by (auto simp: h)
  from ok 1 2 show ?thesis by simp
qed

text \<open>
  C7, as the code has it. The request of a submitted prompt carries the domain
  and a \<^verbatim>\<open>qa_dict\<close> with the query, \<^verbatim>\<open>llm_kwargs\<close> (model name, temperature),
  \<^verbatim>\<open>vectorstore_kwargs\<close> (k, use_reranker, rerank_top_n) and the recursion limit.
  The key \<^verbatim>\<open>rerank_top_n\<close> is always there: its value is the configured integer
  when the reranker is on and \<^verbatim>\<open>None\<close> when it is off.
\<close>

theorem chat_prompt_payload:
  assumes "prompt = Some p" and "p \<noteq> []"
  shows "\<exists>req.
     sent (chat_prompt net w now selected_domain prompt s) = sent s @ [req] \<and>
     data req =
       Some (JObj
         [(''company_domain'', JStr selected_domain),
          (''qa_dict'',
             JObj [(''query'', JStr p),
                   (''llm_kwargs'',
                      JObj [(''model_name'', JStr (selected_model w)),
                            (''temperature'', JFloat (temperature w))]),
                   (''vectorstore_kwargs'',
                      JObj [(''k'', JInt (k_value w)),
                            (''use_reranker'', JBool (use_reranker w)),
                            (''rerank_top_n'',
                               (if use_reranker w then JInt (rerank_top_n w) else JNull))]),
                   (''recursion_limit'', JInt (recursion_limit w))])])"
proof -
  let ?s2 = "show_notice (St_markdown (JStr p))
     (append_message (JObj [(''role'', JStr ''user''), (''content'', JStr p)])
        (ensure_messages s))"
  have "sent (chat_prompt net w now selected_domain prompt s) =
          sent s @ [qa_request ?s2 selected_domain (qa_dict_of w p)]"
    using assms
    by (auto simp: chat_prompt_def post_def Let_def sent_simps split: sum.splits json.splits)
  moreover have "data (qa_request ?s2 selected_domain (qa_dict_of w p)) =
      Some (JObj [(''company_domain'', JStr selected_domain), (''qa_dict'', qa_dict_of w p)])"
    by (simp add: qa_request_def)
  ultimately show ?thesis by (simp add: qa_dict_of_def)
qed

theorem chat_prompt_payload_witness:
  "map data (sent (chat_prompt chat_backend widgets0 ''2025-01-01T00:00:00'' ''acme.com''
      (Some ''What does Acme do?'') session1)) =
     [Some (JObj
         [(''company_domain'', JStr ''acme.com''),
          (''qa_dict'',
             JObj [(''query'', JStr ''What does Acme do?''),
                   (''llm_kwargs'',
                      JObj [(''model_name'', JStr ''gpt-4o-mini''),
                            (''temperature'', JFloat 0.1)]),
                   (''vectorstore_kwargs'',
                      JObj [(''k'', JInt 30),
                            (''use_reranker'', JBool True),
                            (''rerank_top_n'', JInt 10)]),
                   (''recursion_limit'', JInt 25)])])]"
proof -
  have e: "sent session1 = []" by (simp add: session1_def session0_def init_session_def)
  from chat_prompt_payload[of "Some ''What does Acme do?''" "''What does Acme do?''"
      chat_backend widgets0 "''2025-01-01T00:00:00''" "''acme.com''" session1]
  show ?thesis by (auto simp: e widgets0_def)
qed

text \<open>
  C7 as stated fails on the presence of the key: with the reranker off the
  payload still has \<^verbatim>\<open>rerank_top_n\<close>, with the value \<^verbatim>\<open>None\<close>.
\<close>

theorem rerank_top_n_counterexample:
  "\<not> use_reranker widgets_plain \<and>
   map data (sent (chat_prompt chat_backend widgets_plain ''2025-01-01T00:00:00'' ''acme.com''
      (Some ''What does Acme do?'') session1)) =
     [Some (JObj
         [(''company_domain'', JStr ''acme.com''),
          (''qa_dict'',
             JObj [(''query'', JStr ''What does Acme do?''),
                   (''llm_kwargs'',
                      JObj [(''model_name'', JStr ''gpt-4o-mini''),
                            (''temperature'', JFloat 0.1)]),
                   (''vectorstore_kwargs'',
                      JObj [(''k'', JInt 30),
                            (''use_reranker'', JBool False),
                            (''rerank_top_n'', JNull)]),
                   (''recursion_limit'', JInt 25)])])]"
proof -
  have e: "sent session1 = []" by (simp add: session1_def session0_def init_session_def)
  show ?thesis
    by (simp add: chat_prompt_def post_def Let_def chat_backend_def answer_response_def
        sent_simps keeps_simps qa_request_def qa_dict_of_def widgets_plain_def widgets0_def e)
qed


end
